theory Spec2Isabelle
  imports Main "HOL-Library.Code_Target_Numeral"
begin

section \<open>Python builtins used by the tool functions\<close>

text \<open>
  The tool functions of \<^verbatim>\<open>function_tools.py\<close> call three builtins on their arguments:
  \<^verbatim>\<open>int(s, 16)\<close>, \<^verbatim>\<open>int(s)\<close> and \<^verbatim>\<open>hex(n)\<close>. Python integers are unbounded
  (\<^typ>\<open>int\<close>). A Python string is modelled as a \<^typ>\<open>string\<close> whose characters are the code
  points 0 to 255; strings with larger code points are outside the model.

  \<^verbatim>\<open>int(s, base)\<close> follows CPython's \<^verbatim>\<open>PyLong_FromString\<close>: surrounding whitespace is
  skipped, one sign is accepted, for base 16 a prefix \<^verbatim>\<open>0x\<close> or \<^verbatim>\<open>0X\<close> is accepted (and one
  underscore after it), the digits may be separated by single underscores, there must be
  at least one digit, and nothing else may follow.
\<close>

definition is_space :: "char \<Rightarrow> bool" where
  "is_space c = ((of_char c :: nat) \<in> {9, 10, 11, 12, 13, 32, 133, 160})"

definition digit_value :: "char \<Rightarrow> nat" where
  "digit_value c =
     (let n = (of_char c :: nat) in
      if 48 \<le> n \<and> n \<le> 57 then n - 48
      else if 97 \<le> n \<and> n \<le> 122 then n - 87
      else if 65 \<le> n \<and> n \<le> 90 then n - 55
      else 37)"

text \<open>
  The digit scan: \<open>prev\<close> is the character read last (NUL at the start), \<open>acc\<close> the value
  so far and \<open>n\<close> the number of digits read. It stops at the first character that is
  neither a digit of the base nor an underscore, and fails on two underscores in a row
  and on an underscore just before the stop.
\<close>

fun scan :: "nat \<Rightarrow> char \<Rightarrow> nat \<Rightarrow> nat \<Rightarrow> string \<Rightarrow> (nat \<times> nat \<times> string) option" where
  "scan b prev acc n [] = (if prev = CHR ''_'' then None else Some (acc, n, []))"
| "scan b prev acc n (c # cs) =
     (if c = CHR ''_'' then (if prev = CHR ''_'' then None else scan b c acc n cs)
      else if digit_value c < b then scan b c (acc * b + digit_value c) (Suc n) cs
      else if prev = CHR ''_'' then None
      else Some (acc, n, c # cs))"

fun strip_sign :: "string \<Rightarrow> bool \<times> string" where
  "strip_sign [] = (False, [])"
| "strip_sign (c # cs) =
     (if c = CHR ''+'' then (False, cs)
      else if c = CHR ''-'' then (True, cs)
      else (False, c # cs))"

fun strip_prefix :: "nat \<Rightarrow> string \<Rightarrow> string" where
  "strip_prefix b (c # d # cs) =
     (if b = 16 \<and> c = CHR ''0'' \<and> (d = CHR ''x'' \<or> d = CHR ''X'')
      then (case cs of [] \<Rightarrow> [] | e # es \<Rightarrow> if e = CHR ''_'' then es else e # es)
      else c # d # cs)"
| "strip_prefix b cs = cs"

definition py_int :: "nat \<Rightarrow> string \<Rightarrow> int option" where
  "py_int b s =
     (case strip_sign (dropWhile is_space s) of (neg, s2) \<Rightarrow>
        (case strip_prefix b s2 of
           [] \<Rightarrow> None
         | c # cs \<Rightarrow>
             if c = CHR ''_'' then None
             else (case scan b (CHR 0x00) 0 0 (c # cs) of
                     None \<Rightarrow> None
                   | Some (v, n, rest) \<Rightarrow>
                       if n = 0 then None
                       else if dropWhile is_space rest = []
                         then Some (if neg then - int v else int v)
                       else None)))"

text \<open>\<^verbatim>\<open>hex(n)\<close>: a minus sign for a negative number, \<^verbatim>\<open>0x\<close>, lower-case digits.\<close>

definition hex_digit :: "nat \<Rightarrow> char" where
  "hex_digit d = (if d < 10 then char_of (48 + d) else char_of (87 + d))"

function hex_digits :: "nat \<Rightarrow> string" where
  "hex_digits n = (if n < 16 then [hex_digit n] else hex_digits (n div 16) @ [hex_digit (n mod 16)])"
  by pat_completeness auto
termination
  by (relation "measure (\<lambda>n. n)") auto

declare hex_digits.simps [simp del]

definition hex :: "int \<Rightarrow> string" where
  "hex n = (if n < 0 then ''-0x'' @ hex_digits (nat (- n)) else ''0x'' @ hex_digits (nat n))"

section \<open>Messages, exceptions and the queue to the backend\<close>

text \<open>
  Modelled from the spec: the message classes of \<^verbatim>\<open>tool_protocol\<close> are imported by
  \<^verbatim>\<open>function_tools.py\<close> and are not part of the sources at hand. A request is a tagged
  variant with the fields the tool functions pass to its constructor; a response is a
  tagged variant with the fields the tool functions read, under a common part carrying
  the optional error description. \<open>OtherResponse\<close> stands for any further subclass of
  \<^verbatim>\<open>RevaMessageResponse\<close>.
\<close>

datatype RevaVariable = RevaVariable (variable_name: string)

datatype request =
    RevaGetDecompilation "int option" "string option"
  | RevaGetDefinedFunctionList int int
  | RevaGetFunctionCount
  | RevaRenameVariable RevaVariable string string
  | RevaGetReferences string

datatype payload =
    RevaGetDecompilationResponse string string int string "RevaVariable list"
  | RevaGetDefinedFunctionListResponse "string list"
  | RevaGetFunctionCountResponse int
  | RevaRenameVariableResponse
  | RevaGetReferencesResponse "string list" "string list"
  | OtherResponse

record RevaMessageResponse =
  error_message :: "string option"
  payload :: payload

text \<open>
  What \<^verbatim>\<open>callback_handler.wait()\<close> hands back is a Python object: a response message, or
  anything else (on which the \<^verbatim>\<open>assert isinstance(response, RevaMessageResponse)\<close> fails).
\<close>

datatype delivered = Message RevaMessageResponse | NotAMessage

text \<open>
  The text of an exception. A message built by an f-string from the response object is
  kept as the class name expected and the response; the message of the \<^verbatim>\<open>ValueError\<close>
  raised by \<^verbatim>\<open>int\<close> as the base and the rejected string.
\<close>

datatype exc_message =
    Text string
  | Expected_got string RevaMessageResponse
  | Invalid_literal nat string

datatype exc =
    RevaToolException exc_message
  | ValueError exc_message
  | AssertionError exc_message
  | TypeError exc_message

text \<open>
  A call returns a value, raises, or never returns: \<^verbatim>\<open>wait()\<close> has no timeout and blocks
  until a response is delivered.
\<close>

datatype 'a outcome = Returned 'a | Raised exc | Blocked

text \<open>
  Modelled from the spec: \<^verbatim>\<open>RevaCallbackHandler\<close> and the queue \<^verbatim>\<open>to_send_to_tool\<close> belong
  to \<^verbatim>\<open>assistant_api_server\<close>, which is not part of the sources at hand. The state is
  the sequence of requests put on the shared queue, oldest first. The backend is any
  function from that sequence (the request just put being the last) to what the waiter
  receives, \<open>None\<close> when no response is ever delivered.
\<close>

record bridge =
  to_send_to_tool :: "request list"

type_synonym backend = "request list \<Rightarrow> delivered option"

definition put :: "request \<Rightarrow> bridge \<Rightarrow> bridge" where
  "put req st = st\<lparr>to_send_to_tool := to_send_to_tool st @ [req]\<rparr>"

definition wait :: "backend \<Rightarrow> bridge \<Rightarrow> delivered option" where
  "wait be st = be (to_send_to_tool st)"

text \<open>\<^verbatim>\<open>if response.error_message: raise RevaToolException(response.error_message)\<close>\<close>

definition raise_if_error :: "RevaMessageResponse \<Rightarrow> exc option" where
  "raise_if_error r =
     (case error_message r of
        None \<Rightarrow> None
      | Some e \<Rightarrow> if e = [] then None else Some (RevaToolException (Text e)))"

section \<open>RevaDecompilationIndex\<close>

datatype pyarg = PStr string | PInt int

record ident =
  address :: "int option"
  name :: "string option"

text \<open>
  The normalisation of the argument (lines 45 to 53), as the values of the two local
  variables when it ends and the exception it raises, if any. \<^verbatim>\<open>int(x, 16)\<close> on an integer
  raises \<^verbatim>\<open>TypeError\<close>. \<^verbatim>\<open>RevaToolException\<close> is taken not to be a subclass of
  \<^verbatim>\<open>ValueError\<close>, so the \<^verbatim>\<open>except ValueError\<close> does not catch it.
\<close>

definition normalise :: "pyarg \<Rightarrow> ident \<times> exc option" where
  "normalise x =
     (case x of
        PInt n \<Rightarrow>
          (\<lparr>address = None, name = None\<rparr>,
           Some (TypeError (Text ''int() can't convert non-string with explicit base'')))
      | PStr s \<Rightarrow>
          (case py_int 16 s of
             Some a \<Rightarrow>
               if a \<le> 0
               then (\<lparr>address = Some a, name = None\<rparr>,
                     Some (RevaToolException (Text ''Address must be > 0 and in hex format'')))
               else (\<lparr>address = Some a, name = None\<rparr>, None)
           | None \<Rightarrow> (\<lparr>address = None, name = Some s\<rparr>, None)))"

datatype pyval = Str string | Variables "RevaVariable list"

definition get_decompilation_for_function ::
  "backend \<Rightarrow> pyarg \<Rightarrow> bridge \<Rightarrow> (string \<times> pyval) list outcome \<times> bridge" where
  "get_decompilation_for_function be function_name_or_address st =
     (case normalise function_name_or_address of
        (loc, Some e) \<Rightarrow> (Raised e, st)
      | (loc, None) \<Rightarrow>
          if address loc = None \<and> name loc = None
          then (Raised (RevaToolException
                  (Text ''function_name_or_address must be an address or function name'')), st)
          else
            (let st' = put (RevaGetDecompilation (address loc) (name loc)) st in
             case wait be st' of
               None \<Rightarrow> (Blocked, st')
             | Some NotAMessage \<Rightarrow>
                 (Raised (AssertionError (Text ''Incorrect type returned from callback handler.'')), st')
             | Some (Message response) \<Rightarrow>
                 (case raise_if_error response of
                    Some e \<Rightarrow> (Raised e, st')
                  | None \<Rightarrow>
                      (case payload response of
                         RevaGetDecompilationResponse f sig a d vs \<Rightarrow>
                           (Returned
                              [(''function'', Str f),
                               (''function_signature'', Str sig),
                               (''address'', Str (hex a)),
                               (''decompilation'', Str d),
                               (''variables'', Variables vs)], st')
                       | _ \<Rightarrow>
                           (Raised (ValueError
                              (Expected_got ''RevaGetDecompilationResponse'' response)), st')))))"

text \<open>
  \<^verbatim>\<open>if isinstance(page, str): page = int(page)\<close>, for a page and for a page size alike. The
  bound that recent Python versions put on the number of digits of a decimal string (a
  \<^verbatim>\<open>ValueError\<close> as well) is not modelled.
\<close>

definition coerce :: "pyarg \<Rightarrow> exc + int" where
  "coerce x =
     (case x of
        PInt n \<Rightarrow> Inr n
      | PStr s \<Rightarrow>
          (case py_int 10 s of
             Some n \<Rightarrow> Inr n
           | None \<Rightarrow> Inl (ValueError (Invalid_literal 10 s))))"

definition get_defined_function_list_paginated ::
  "backend \<Rightarrow> pyarg \<Rightarrow> pyarg \<Rightarrow> bridge \<Rightarrow> string list outcome \<times> bridge" where
  "get_defined_function_list_paginated be page page_size st =
     (case coerce page of
        Inl e \<Rightarrow> (Raised e, st)
      | Inr p \<Rightarrow>
          (case coerce page_size of
             Inl e \<Rightarrow> (Raised e, st)
           | Inr ps \<Rightarrow>
               if p = 0
               then (Raised (ValueError (Text ''`page` is 1 indexed, page cannot be 0'')), st)
               else
                 (let st' = put (RevaGetDefinedFunctionList p ps) st in
                  case wait be st' of
                    None \<Rightarrow> (Blocked, st')
                  | Some NotAMessage \<Rightarrow>
                      (Raised (AssertionError
                         (Text ''Incorrect type returned from callback handler.'')), st')
                  | Some (Message response) \<Rightarrow>
                      (case raise_if_error response of
                         Some e \<Rightarrow> (Raised e, st')
                       | None \<Rightarrow>
                           (case payload response of
                              RevaGetDefinedFunctionListResponse function_list \<Rightarrow>
                                (Returned function_list, st')
                            | _ \<Rightarrow>
                                (Raised (RevaToolException
                                   (Expected_got ''RevaGetDefinedFunctionListResponse'' response)),
                                 st'))))))"

definition get_defined_function_count :: "backend \<Rightarrow> bridge \<Rightarrow> int outcome \<times> bridge" where
  "get_defined_function_count be st =
     (let st' = put RevaGetFunctionCount st in
      case wait be st' of
        None \<Rightarrow> (Blocked, st')
      | Some NotAMessage \<Rightarrow>
          (Raised (AssertionError (Text ''Incorrect type returned from callback handler.'')), st')
      | Some (Message response) \<Rightarrow>
          (case raise_if_error response of
             Some e \<Rightarrow> (Raised e, st')
           | None \<Rightarrow>
               (case payload response of
                  RevaGetFunctionCountResponse function_count \<Rightarrow> (Returned function_count, st')
                | _ \<Rightarrow>
                    (Raised (ValueError
                       (Expected_got ''RevaGetFunctionCountResponse'' response)), st'))))"

section \<open>RevaRenameFunctionVariable\<close>

definition rename_variable_in_function ::
  "backend \<Rightarrow> string \<Rightarrow> string \<Rightarrow> string \<Rightarrow> bridge \<Rightarrow> string outcome \<times> bridge" where
  "rename_variable_in_function be new_name old_name containing_function st =
     (let st' = put (RevaRenameVariable (RevaVariable old_name) new_name containing_function) st in
      case wait be st' of
        None \<Rightarrow> (Blocked, st')
      | Some NotAMessage \<Rightarrow>
          (Raised (AssertionError (Text ''Incorrect type returned from callback handler.'')), st')
      | Some (Message response) \<Rightarrow>
          (case raise_if_error response of
             Some e \<Rightarrow> (Raised e, st')
           | None \<Rightarrow>
               (Returned (''Renamed '' @ old_name @ '' to '' @ new_name @ '' in ''
                            @ containing_function), st')))"

text \<open>
  The loop over \<^verbatim>\<open>new_names.items()\<close>: the dictionary is the list of its entries in
  iteration order, \<open>outputs\<close> the list appended to. An exception of a rename leaves the
  loop and the function at once, as does a wait that never returns.
\<close>

fun rename_loop ::
  "backend \<Rightarrow> (string \<times> string) list \<Rightarrow> string \<Rightarrow> string list \<Rightarrow> bridge
     \<Rightarrow> string list outcome \<times> bridge" where
  "rename_loop be [] containing_function outputs st = (Returned outputs, st)"
| "rename_loop be ((old_name, new_name) # rest) containing_function outputs st =
     (case rename_variable_in_function be new_name old_name containing_function st of
        (Returned s, st') \<Rightarrow> rename_loop be rest containing_function (outputs @ [s]) st'
      | (Raised e, st') \<Rightarrow> (Raised e, st')
      | (Blocked, st') \<Rightarrow> (Blocked, st'))"

definition rename_multiple_variables_in_function ::
  "backend \<Rightarrow> (string \<times> string) list \<Rightarrow> string \<Rightarrow> bridge \<Rightarrow> string list outcome \<times> bridge" where
  "rename_multiple_variables_in_function be new_names containing_function st =
     rename_loop be new_names containing_function [] st"

section \<open>RevaCrossReferenceTool\<close>

definition get_references ::
  "backend \<Rightarrow> string \<Rightarrow> bridge \<Rightarrow> (string \<times> string list) list outcome \<times> bridge" where
  "get_references be address_or_symbol st =
     (let st' = put (RevaGetReferences address_or_symbol) st in
      case wait be st' of
        None \<Rightarrow> (Blocked, st')
      | Some NotAMessage \<Rightarrow>
          (Raised (AssertionError (Text ''Incorrect type returned from callback handler.'')), st')
      | Some (Message response) \<Rightarrow>
          (case raise_if_error response of
             Some e \<Rightarrow> (Raised e, st')
           | None \<Rightarrow>
               (case payload response of
                  RevaGetReferencesResponse references_to references_from \<Rightarrow>
                    (Returned
                       [(''references_to'', references_to),
                        (''references_from'', references_from)], st')
                | _ \<Rightarrow>
                    (Raised (AssertionError
                       (Expected_got ''RevaGetReferencesResponse'' response)), st'))))"

section \<open>Notions used to state the properties\<close>

text \<open>A string made of digits of the base only, without underscores.\<close>

definition digit_string :: "nat \<Rightarrow> string \<Rightarrow> bool" where
  "digit_string b ds = list_all (\<lambda>c. c \<noteq> CHR ''_'' \<and> digit_value c < b) ds"

text \<open>The request that the rename of one dictionary entry puts on the queue.\<close>

definition rename_request :: "string \<Rightarrow> string \<times> string \<Rightarrow> request" where
  "rename_request containing_function entry =
     RevaRenameVariable (RevaVariable (fst entry)) (snd entry) containing_function"

text \<open>The confirmation string of one dictionary entry.\<close>

definition confirmation :: "string \<Rightarrow> string \<times> string \<Rightarrow> string" where
  "confirmation containing_function entry =
     ''Renamed '' @ fst entry @ '' to '' @ snd entry @ '' in '' @ containing_function"

text \<open>A response message without an error description was delivered.\<close>

definition succeeds :: "delivered option \<Rightarrow> bool" where
  "succeeds d =
     (case d of
        Some (Message r) \<Rightarrow> raise_if_error r = None
      | _ \<Rightarrow> False)"

text \<open>What a caller gets back as a value: nothing when the call raised or blocked.\<close>

definition returned_value :: "'a outcome \<Rightarrow> 'a option" where
  "returned_value out = (case out of Returned v \<Rightarrow> Some v | _ \<Rightarrow> None)"

section \<open>Sample backends\<close>

definition empty_queue :: bridge where
  "empty_queue = \<lparr>to_send_to_tool = []\<rparr>"

text \<open>
  A backend that answers each request with a response of its kind; it knows no variable
  called \<open>missing\<close>.
\<close>

definition sample_backend :: backend where
  "sample_backend h =
     (if h = [] then None
      else (case last h of
              RevaGetDecompilation a f \<Rightarrow>
                Some (Message \<lparr>error_message = None,
                  payload = RevaGetDecompilationResponse ''main'' ''int main(void)''
                    (case a of Some x \<Rightarrow> x | None \<Rightarrow> 4096) ''return 0;''
                    [RevaVariable ''local_8'']\<rparr>)
            | RevaGetDefinedFunctionList p ps \<Rightarrow>
                Some (Message \<lparr>error_message = None,
                  payload = RevaGetDefinedFunctionListResponse [''main'', ''helper'']\<rparr>)
            | RevaGetFunctionCount \<Rightarrow>
                Some (Message \<lparr>error_message = None, payload = RevaGetFunctionCountResponse 2\<rparr>)
            | RevaRenameVariable v n f \<Rightarrow>
                if variable_name v = ''missing''
                then Some (Message \<lparr>error_message = Some ''Variable not found'',
                       payload = RevaRenameVariableResponse\<rparr>)
                else Some (Message \<lparr>error_message = None, payload = RevaRenameVariableResponse\<rparr>)
            | RevaGetReferences s \<Rightarrow>
                Some (Message \<lparr>error_message = None,
                  payload = RevaGetReferencesResponse [] []\<rparr>)))"

text \<open>A backend that reports an error on every request, in a response of no known kind.\<close>

definition erring_backend :: backend where
  "erring_backend h =
     Some (Message \<lparr>error_message = Some ''Function not found'', payload = OtherResponse\<rparr>)"

text \<open>A backend that answers every request with a function count and no error.\<close>

definition confused_backend :: backend where
  "confused_backend h =
     Some (Message \<lparr>error_message = None, payload = RevaGetFunctionCountResponse 3\<rparr>)"

text \<open>
  A backend that answers a decompilation request with the function containing the
  address, whose entry point is 0x2000.
\<close>

definition relocating_backend :: backend where
  "relocating_backend h =
     Some (Message \<lparr>error_message = None,
       payload = RevaGetDecompilationResponse ''main'' ''int main(void)'' 8192 ''return 0;'' []\<rparr>)"

section \<open>Reading back what \<^verbatim>\<open>hex\<close> writes\<close>

lemma digit_value_hex_digit: "d < 16 \<Longrightarrow> digit_value (hex_digit d) = d"
  by (auto simp: digit_value_def hex_digit_def Let_def)

lemma hex_digit_not_underscore: "d < 16 \<Longrightarrow> hex_digit d \<noteq> CHR ''_''"
  using digit_value_hex_digit [of d] by (auto simp: digit_value_def)

lemma scan_digit_string:
  "digit_string b ds \<Longrightarrow> ds \<noteq> [] \<or> prev \<noteq> CHR ''_'' \<Longrightarrow>
   scan b prev acc n ds = Some (foldl (\<lambda>a c. a * b + digit_value c) acc ds, n + length ds, [])"
proof (induction ds arbitrary: prev acc n)
  case Nil
  then show ?case by simp
next
  case (Cons c cs)
  from Cons.prems(1) have c: "c \<noteq> CHR ''_''" "digit_value c < b" and cs: "digit_string b cs"
    by (simp_all add: digit_string_def)
  have "scan b c (acc * b + digit_value c) (Suc n) cs =
        Some (foldl (\<lambda>a c. a * b + digit_value c) (acc * b + digit_value c) cs, Suc n + length cs, [])"
    using c by (intro Cons.IH [OF cs]) simp
  then show ?case using c by simp
qed

lemma hex_digits_digit_string: "digit_string 16 (hex_digits n)"
proof (induction n rule: hex_digits.induct)
  case (1 n)
  show ?case
  proof (cases "n < 16")
    case True
    then show ?thesis
      by (subst hex_digits.simps) (simp add: digit_string_def digit_value_hex_digit hex_digit_not_underscore)
  next
    case False
    with 1 have "digit_string 16 (hex_digits (n div 16))" by simp
    moreover have "n mod 16 < 16" by simp
    ultimately show ?thesis using False
      by (subst hex_digits.simps)
         (auto simp: digit_string_def digit_value_hex_digit hex_digit_not_underscore)
  qed
qed

lemma hex_digits_value: "foldl (\<lambda>a c. a * 16 + digit_value c) 0 (hex_digits n) = n"
proof (induction n rule: hex_digits.induct)
  case (1 n)
  show ?case
  proof (cases "n < 16")
    case True
    then show ?thesis by (subst hex_digits.simps) (simp add: digit_value_hex_digit)
  next
    case False
    with 1 have "foldl (\<lambda>a c. a * 16 + digit_value c) 0 (hex_digits (n div 16)) = n div 16" by simp
    then show ?thesis using False
      by (subst hex_digits.simps) (simp add: digit_value_hex_digit)
  qed
qed

lemma hex_digits_nonempty: "hex_digits n \<noteq> []"
  by (subst hex_digits.simps) simp

lemma py_int_hex_digits:
  "py_int 16 (CHR ''0'' # CHR ''x'' # hex_digits n) = Some (int n)"
proof -
  obtain c cs where ccs: "hex_digits n = c # cs"
    using hex_digits_nonempty [of n] by (cases "hex_digits n") auto
  have ds: "digit_string 16 (c # cs)" using hex_digits_digit_string [of n] ccs by simp
  then have c: "c \<noteq> CHR ''_''" by (simp add: digit_string_def)
  have sc: "scan 16 (CHR 0x00) 0 0 (c # cs) = Some (n, length (c # cs), [])"
    using scan_digit_string [OF ds, of "CHR 0x00" 0 0] hex_digits_value [of n] ccs by simp
  show ?thesis
    using c sc by (simp add: py_int_def is_space_def ccs del: scan.simps)
qed

lemma py_int_neg_hex_digits:
  "py_int 16 (CHR ''-'' # CHR ''0'' # CHR ''x'' # hex_digits n) = Some (- int n)"
proof -
  obtain c cs where ccs: "hex_digits n = c # cs"
    using hex_digits_nonempty [of n] by (cases "hex_digits n") auto
  have ds: "digit_string 16 (c # cs)" using hex_digits_digit_string [of n] ccs by simp
  then have c: "c \<noteq> CHR ''_''" by (simp add: digit_string_def)
  have sc: "scan 16 (CHR 0x00) 0 0 (c # cs) = Some (n, length (c # cs), [])"
    using scan_digit_string [OF ds, of "CHR 0x00" 0 0] hex_digits_value [of n] ccs by simp
  show ?thesis
    using c sc by (simp add: py_int_def is_space_def ccs del: scan.simps)
qed

lemma py_int_hex: "py_int 16 (hex n) = Some n"
  by (simp add: hex_def py_int_hex_digits py_int_neg_hex_digits)

section \<open>The response handling of each operation\<close>

lemma normalise_populates:
  "normalise x = (loc, None) \<Longrightarrow> \<not> (address loc = None \<and> name loc = None)"
  by (auto simp: normalise_def split: pyarg.splits option.splits if_splits)

lemma raise_if_error_Some:
  "error_message r = Some e \<Longrightarrow> e \<noteq> [] \<Longrightarrow> raise_if_error r = Some (RevaToolException (Text e))"
  by (simp add: raise_if_error_def)

lemma decompilation_backend_error:
  assumes "normalise x = (loc, None)"
    and "wait be (put (RevaGetDecompilation (address loc) (name loc)) st) = Some (Message r)"
    and "raise_if_error r = Some e"
  shows "get_decompilation_for_function be x st =
           (Raised e, put (RevaGetDecompilation (address loc) (name loc)) st)"
  using assms normalise_populates [OF assms(1)]
  by (auto simp: get_decompilation_for_function_def Let_def)

lemma list_backend_error:
  assumes "coerce page = Inr p" "coerce page_size = Inr ps" "p \<noteq> 0"
    and "wait be (put (RevaGetDefinedFunctionList p ps) st) = Some (Message r)"
    and "raise_if_error r = Some e"
  shows "get_defined_function_list_paginated be page page_size st =
           (Raised e, put (RevaGetDefinedFunctionList p ps) st)"
  using assms by (simp add: get_defined_function_list_paginated_def Let_def)

lemma count_backend_error:
  assumes "wait be (put RevaGetFunctionCount st) = Some (Message r)"
    and "raise_if_error r = Some e"
  shows "get_defined_function_count be st = (Raised e, put RevaGetFunctionCount st)"
  using assms by (simp add: get_defined_function_count_def Let_def)

lemma rename_backend_error:
  assumes "wait be (put (RevaRenameVariable (RevaVariable old) new f) st) = Some (Message r)"
    and "raise_if_error r = Some e"
  shows "rename_variable_in_function be new old f st =
           (Raised e, put (RevaRenameVariable (RevaVariable old) new f) st)"
  using assms by (simp add: rename_variable_in_function_def Let_def)

lemma rename_success:
  assumes "wait be (put (RevaRenameVariable (RevaVariable old) new f) st) = Some (Message r)"
    and "raise_if_error r = None"
  shows "rename_variable_in_function be new old f st =
           (Returned (''Renamed '' @ old @ '' to '' @ new @ '' in '' @ f),
            put (RevaRenameVariable (RevaVariable old) new f) st)"
  using assms by (simp add: rename_variable_in_function_def Let_def)

lemma references_backend_error:
  assumes "wait be (put (RevaGetReferences s) st) = Some (Message r)"
    and "raise_if_error r = Some e"
  shows "get_references be s st = (Raised e, put (RevaGetReferences s) st)"
  using assms by (simp add: get_references_def Let_def)

text \<open>
  C1. In each of the five tool operations, a delivered response message with a non-empty
  error description makes the call raise \<^verbatim>\<open>RevaToolException\<close> with exactly that text,
  whatever the kind and the payload of the response: the error is looked at before the
  kind is checked and before any payload field is read.
\<close>
theorem backend_error_takes_precedence:
  assumes "error_message r = Some e" and "e \<noteq> []"
  shows
    "(normalise x = (loc, None) \<and>
        wait be (put (RevaGetDecompilation (address loc) (name loc)) st) = Some (Message r)
      \<longrightarrow> fst (get_decompilation_for_function be x st) = Raised (RevaToolException (Text e)))
     \<and> (coerce page = Inr p \<and> coerce page_size = Inr ps \<and> p \<noteq> 0 \<and>
        wait be (put (RevaGetDefinedFunctionList p ps) st) = Some (Message r)
      \<longrightarrow> fst (get_defined_function_list_paginated be page page_size st)
            = Raised (RevaToolException (Text e)))
     \<and> (wait be (put RevaGetFunctionCount st) = Some (Message r)
      \<longrightarrow> fst (get_defined_function_count be st) = Raised (RevaToolException (Text e)))
     \<and> (wait be (put (RevaRenameVariable (RevaVariable old) new f) st) = Some (Message r)
      \<longrightarrow> fst (rename_variable_in_function be new old f st)
            = Raised (RevaToolException (Text e)))
     \<and> (wait be (put (RevaGetReferences s) st) = Some (Message r)
      \<longrightarrow> fst (get_references be s st) = Raised (RevaToolException (Text e)))"
proof -
  note err = raise_if_error_Some [OF assms]
  show ?thesis
    by (simp add: decompilation_backend_error [OF _ _ err] list_backend_error [OF _ _ _ _ err]
        count_backend_error [OF _ err] rename_backend_error [OF _ err]
        references_backend_error [OF _ err])
qed

theorem backend_error_takes_precedence_witness:
  "error_message \<lparr>error_message = Some ''Function not found'', payload = OtherResponse\<rparr>
     = Some ''Function not found''
   \<and> ''Function not found'' \<noteq> []
   \<and> fst (get_decompilation_for_function erring_backend (PStr ''main'') empty_queue)
       = Raised (RevaToolException (Text ''Function not found''))
   \<and> fst (get_defined_function_list_paginated erring_backend (PInt 1) (PInt 20) empty_queue)
       = Raised (RevaToolException (Text ''Function not found''))
   \<and> fst (get_defined_function_count erring_backend empty_queue)
       = Raised (RevaToolException (Text ''Function not found''))
   \<and> fst (rename_variable_in_function erring_backend ''count'' ''local_8'' ''main'' empty_queue)
       = Raised (RevaToolException (Text ''Function not found''))
   \<and> fst (get_references erring_backend ''main'' empty_queue)
       = Raised (RevaToolException (Text ''Function not found''))"
proof -
  have n: "normalise (PStr ''main'') = (\<lparr>address = None, name = Some ''main''\<rparr>, None)"
    by (simp add: normalise_def py_int_def is_space_def digit_value_def)
  show ?thesis
    using backend_error_takes_precedence
      [of "\<lparr>error_message = Some ''Function not found'', payload = OtherResponse\<rparr>"
          "''Function not found''" "PStr ''main''" "\<lparr>address = None, name = Some ''main''\<rparr>"
          erring_backend empty_queue "PInt 1" 1 "PInt 20" 20 "''local_8''" "''count''" "''main''"
          "''main''"]
    by (simp add: n coerce_def wait_def erring_backend_def)
qed


lemma rename_loop_prefix:
  assumes "\<forall>k < length pre.
             succeeds (be (to_send_to_tool st @ map (rename_request f) (take (Suc k) pre)))"
  shows "rename_loop be (pre @ rest) f outputs st =
           rename_loop be rest f (outputs @ map (confirmation f) pre)
             (st\<lparr>to_send_to_tool := to_send_to_tool st @ map (rename_request f) pre\<rparr>)"
  using assms
proof (induction pre arbitrary: outputs st)
  case Nil
  then show ?case by simp
next
  case (Cons entry pre)
  obtain old new where entry: "entry = (old, new)" by (cases entry)
  let ?st = "put (RevaRenameVariable (RevaVariable old) new f) st"
  from Cons.prems have "succeeds (be (to_send_to_tool st @ map (rename_request f) (take (Suc 0) (entry # pre))))"
    by blast
  then obtain r where r: "wait be ?st = Some (Message r)" "raise_if_error r = None"
    by (auto simp: succeeds_def wait_def put_def rename_request_def entry
             split: option.splits delivered.splits)
  have rest: "\<forall>k < length pre.
      succeeds (be (to_send_to_tool ?st @ map (rename_request f) (take (Suc k) pre)))"
  proof (intro allI impI)
    fix k assume "k < length pre"
    then have "Suc k < length (entry # pre)" by simp
    with Cons.prems
    have "succeeds (be (to_send_to_tool st @ map (rename_request f) (take (Suc (Suc k)) (entry # pre))))"
      by blast
    then show "succeeds (be (to_send_to_tool ?st @ map (rename_request f) (take (Suc k) pre)))"
      by (simp add: put_def rename_request_def entry)
  qed
  show ?case
    using Cons.IH [OF rest, of "outputs @ [confirmation f entry]"] rename_success [OF r]
    by (simp add: entry put_def rename_request_def confirmation_def)
qed

text \<open>
  C3. When the backend answers the request of every entry with a response message
  without error, the batch rename returns one confirmation per entry, in the order of
  the entries, the one of the entry \<open>(a, b)\<close> being \<^verbatim>\<open>Renamed a to b in F\<close>; one request per
  entry was put on the queue, in the same order.
\<close>
theorem rename_multiple_all_succeed:
  assumes "\<forall>k < length new_names.
             succeeds (be (to_send_to_tool st @ map (rename_request f) (take (Suc k) new_names)))"
  shows "rename_multiple_variables_in_function be new_names f st =
           (Returned (map (\<lambda>(a, b). ''Renamed '' @ a @ '' to '' @ b @ '' in '' @ f) new_names),
            st\<lparr>to_send_to_tool := to_send_to_tool st @ map (rename_request f) new_names\<rparr>)"
proof -
  have "map (confirmation f) new_names =
        map (\<lambda>(a, b). ''Renamed '' @ a @ '' to '' @ b @ '' in '' @ f) new_names"
    by (simp add: confirmation_def case_prod_unfold)
  then show ?thesis
    using rename_loop_prefix [OF assms, of "[]" "[]"]
    by (simp add: rename_multiple_variables_in_function_def)
qed

theorem rename_multiple_all_succeed_witness:
  "succeeds (sample_backend [RevaRenameVariable (RevaVariable ''a'') ''b'' ''F''])
   \<and> succeeds (sample_backend [RevaRenameVariable (RevaVariable ''a'') ''b'' ''F'',
                                RevaRenameVariable (RevaVariable ''c'') ''d'' ''F''])
   \<and> rename_multiple_variables_in_function sample_backend [(''a'', ''b''), (''c'', ''d'')] ''F''
        empty_queue
       = (Returned [''Renamed a to b in F'', ''Renamed c to d in F''],
          \<lparr>to_send_to_tool = [RevaRenameVariable (RevaVariable ''a'') ''b'' ''F'',
                               RevaRenameVariable (RevaVariable ''c'') ''d'' ''F'']\<rparr>)"
proof -
  have h: "\<forall>k < length [(''a'', ''b''), (''c'', ''d'')].
      succeeds (sample_backend (to_send_to_tool empty_queue
        @ map (rename_request ''F'') (take (Suc k) [(''a'', ''b''), (''c'', ''d'')])))"
    by (simp add: less_Suc_eq succeeds_def sample_backend_def empty_queue_def
        rename_request_def raise_if_error_def)
  have s1: "succeeds (sample_backend [RevaRenameVariable (RevaVariable ''a'') ''b'' ''F''])"
    by (simp add: succeeds_def sample_backend_def raise_if_error_def)
  have s2: "succeeds (sample_backend [RevaRenameVariable (RevaVariable ''a'') ''b'' ''F'',
                                      RevaRenameVariable (RevaVariable ''c'') ''d'' ''F''])"
    by (simp add: succeeds_def sample_backend_def raise_if_error_def)
  show ?thesis
    using s1 s2 rename_multiple_all_succeed [OF h]
    by (simp add: empty_queue_def rename_request_def)
qed

text \<open>
  C2, as the code has it. When the entries before the failing one succeed and the
  backend reports an error for the failing one, the batch rename raises
  \<^verbatim>\<open>RevaToolException\<close> with the backend's text, the requests put on the queue are those of
  the entries up to the failing one and no more, and the call hands back no value: the
  confirmations of the earlier entries are not part of the outcome.
\<close>
theorem rename_multiple_aborts_at_first_failure:
  assumes "\<forall>k < length pre.
             succeeds (be (to_send_to_tool st @ map (rename_request f) (take (Suc k) pre)))"
    and "be (to_send_to_tool st @ map (rename_request f) (pre @ [entry])) = Some (Message r)"
    and "error_message r = Some e" and "e \<noteq> []"
  shows "rename_multiple_variables_in_function be (pre @ entry # post) f st =
           (Raised (RevaToolException (Text e)),
            st\<lparr>to_send_to_tool := to_send_to_tool st @ map (rename_request f) (pre @ [entry])\<rparr>)
         \<and> returned_value (fst (rename_multiple_variables_in_function be (pre @ entry # post) f st))
             = None"
proof -
  obtain old new where entry: "entry = (old, new)" by (cases entry)
  let ?st = "st\<lparr>to_send_to_tool := to_send_to_tool st @ map (rename_request f) pre\<rparr>"
  have w: "wait be (put (RevaRenameVariable (RevaVariable old) new f) ?st) = Some (Message r)"
    using assms(2) by (simp add: wait_def put_def rename_request_def entry)
  have "rename_variable_in_function be new old f ?st =
          (Raised (RevaToolException (Text e)), put (RevaRenameVariable (RevaVariable old) new f) ?st)"
    by (rule rename_backend_error [OF w raise_if_error_Some [OF assms(3,4)]])
  then show ?thesis
    using rename_loop_prefix [OF assms(1), of "entry # post" "[]"]
    by (simp add: rename_multiple_variables_in_function_def entry put_def rename_request_def
        returned_value_def)
qed

theorem rename_multiple_aborts_at_first_failure_witness:
  "succeeds (sample_backend [RevaRenameVariable (RevaVariable ''a'') ''b'' ''F''])
   \<and> sample_backend (to_send_to_tool empty_queue
        @ map (rename_request ''F'') ([(''a'', ''b'')] @ [(''missing'', ''d'')]))
       = Some (Message \<lparr>error_message = Some ''Variable not found'',
                        payload = RevaRenameVariableResponse\<rparr>)
   \<and> rename_multiple_variables_in_function sample_backend
        ([(''a'', ''b'')] @ (''missing'', ''d'') # [(''e'', ''f'')]) ''F'' empty_queue
       = (Raised (RevaToolException (Text ''Variable not found'')),
          \<lparr>to_send_to_tool = [RevaRenameVariable (RevaVariable ''a'') ''b'' ''F'',
                               RevaRenameVariable (RevaVariable ''missing'') ''d'' ''F'']\<rparr>)"
proof -
  have h: "\<forall>k < length [(''a'', ''b'')].
      succeeds (sample_backend (to_send_to_tool empty_queue
        @ map (rename_request ''F'') (take (Suc k) [(''a'', ''b'')])))"
    by (simp add: succeeds_def sample_backend_def empty_queue_def
        rename_request_def raise_if_error_def)
  have d: "sample_backend (to_send_to_tool empty_queue
        @ map (rename_request ''F'') ([(''a'', ''b'')] @ [(''missing'', ''d'')]))
       = Some (Message \<lparr>error_message = Some ''Variable not found'',
                        payload = RevaRenameVariableResponse\<rparr>)"
    by (simp add: sample_backend_def empty_queue_def rename_request_def)
  have s: "succeeds (sample_backend [RevaRenameVariable (RevaVariable ''a'') ''b'' ''F''])"
    by (simp add: succeeds_def sample_backend_def raise_if_error_def)
  show ?thesis
    using s d
      rename_multiple_aborts_at_first_failure [OF h d, of "''Variable not found''" "[(''e'', ''f'')]"]
    by (simp add: empty_queue_def rename_request_def)
qed

text \<open>
  C2, as stated, fails on a batch of two entries whose second rename is refused: the
  outcome is the exception alone, not one success result together with the error.
\<close>
theorem rename_multiple_partial_results_counterexample:
  "rename_multiple_variables_in_function sample_backend [(''a'', ''b''), (''missing'', ''d'')] ''F''
     empty_queue
     = (Raised (RevaToolException (Text ''Variable not found'')),
        \<lparr>to_send_to_tool = [RevaRenameVariable (RevaVariable ''a'') ''b'' ''F'',
                             RevaRenameVariable (RevaVariable ''missing'') ''d'' ''F'']\<rparr>)
   \<and> returned_value (fst (rename_multiple_variables_in_function sample_backend
        [(''a'', ''b''), (''missing'', ''d'')] ''F'' empty_queue))
       \<noteq> Some [''Renamed a to b in F'']"
  by (simp add: rename_multiple_variables_in_function_def rename_variable_in_function_def
      sample_backend_def empty_queue_def put_def wait_def raise_if_error_def returned_value_def
      Let_def)

text \<open>
  C4. A response of the wrong kind without error: the function list raises
  \<^verbatim>\<open>RevaToolException\<close>, the exception class of a backend-reported error (last conjunct),
  and the rename returns its confirmation, where the decompilation lookup raises
  \<^verbatim>\<open>ValueError\<close>.
\<close>
theorem kind_mismatch_evaluation:
  "get_defined_function_list_paginated confused_backend (PInt 1) (PInt 20) empty_queue
     = (Raised (RevaToolException (Expected_got ''RevaGetDefinedFunctionListResponse''
          \<lparr>error_message = None, payload = RevaGetFunctionCountResponse 3\<rparr>)),
        \<lparr>to_send_to_tool = [RevaGetDefinedFunctionList 1 20]\<rparr>)
   \<and> rename_variable_in_function confused_backend ''count'' ''local_8'' ''main'' empty_queue
     = (Returned ''Renamed local_8 to count in main'',
        \<lparr>to_send_to_tool = [RevaRenameVariable (RevaVariable ''local_8'') ''count'' ''main'']\<rparr>)
   \<and> get_decompilation_for_function confused_backend (PStr ''main'') empty_queue
     = (Raised (ValueError (Expected_got ''RevaGetDecompilationResponse''
          \<lparr>error_message = None, payload = RevaGetFunctionCountResponse 3\<rparr>)),
        \<lparr>to_send_to_tool = [RevaGetDecompilation None (Some ''main'')]\<rparr>)
   \<and> get_defined_function_list_paginated erring_backend (PInt 1) (PInt 20) empty_queue
     = (Raised (RevaToolException (Text ''Function not found'')),
        \<lparr>to_send_to_tool = [RevaGetDefinedFunctionList 1 20]\<rparr>)"
proof -
  have n: "normalise (PStr ''main'') = (\<lparr>address = None, name = Some ''main''\<rparr>, None)"
    by (simp add: normalise_def py_int_def is_space_def digit_value_def)
  show ?thesis
    by (simp add: n get_defined_function_list_paginated_def rename_variable_in_function_def
        get_decompilation_for_function_def coerce_def confused_backend_def erring_backend_def
        empty_queue_def put_def wait_def raise_if_error_def Let_def)
qed

text \<open>
  C5. A page that is the integer 0, or a string that \<^verbatim>\<open>int\<close> turns into 0, makes the
  function list raise \<^verbatim>\<open>ValueError\<close> with the queue untouched, for every page size; with
  a page size that is an integer or a numeric string the message is the one of the page
  check.
\<close>
theorem page_zero_rejected_locally:
  assumes "coerce page = Inr 0"
  shows "(\<exists>m. get_defined_function_list_paginated be page page_size st = (Raised (ValueError m), st))
         \<and> (\<forall>ps. coerce page_size = Inr ps \<longrightarrow>
               get_defined_function_list_paginated be page page_size st
                 = (Raised (ValueError (Text ''`page` is 1 indexed, page cannot be 0'')), st))"
  using assms
  by (auto simp: get_defined_function_list_paginated_def coerce_def
           split: sum.splits pyarg.splits option.splits)

theorem page_zero_rejected_locally_witness:
  "coerce (PStr '' 0 '') = Inr 0 \<and> coerce (PInt 0) = Inr 0
   \<and> get_defined_function_list_paginated sample_backend (PStr '' 0 '') (PInt 20) empty_queue
       = (Raised (ValueError (Text ''`page` is 1 indexed, page cannot be 0'')), empty_queue)
   \<and> get_defined_function_list_paginated sample_backend (PInt 0) (PStr ''many'') empty_queue
       = (Raised (ValueError (Invalid_literal 10 ''many'')), empty_queue)"
proof -
  have c: "coerce (PStr '' 0 '') = Inr 0"
    by (simp add: coerce_def py_int_def is_space_def digit_value_def)
  have d: "coerce (PInt 0) = Inr 0" by (simp add: coerce_def)
  have e: "coerce (PStr ''many'') = Inl (ValueError (Invalid_literal 10 ''many''))"
    by (simp add: coerce_def py_int_def is_space_def digit_value_def)
  show ?thesis
    using page_zero_rejected_locally [OF c, of sample_backend "PInt 20" empty_queue]
      page_zero_rejected_locally [OF d, of sample_backend "PStr ''many''" empty_queue]
    by (simp add: c d e get_defined_function_list_paginated_def) (simp add: coerce_def)
qed

text \<open>
  C6, as the code has it. Once page and page size are integers (given or coerced), the
  only local check is \<^verbatim>\<open>page == 0\<close>: a page other than 0, negative ones included, is put on
  the queue with the page size as given, values at or below 0 included.
\<close>
theorem only_page_zero_checked_locally:
  assumes "coerce page = Inr p" and "coerce page_size = Inr ps"
  shows "snd (get_defined_function_list_paginated be page page_size st)
           = (if p = 0 then st else put (RevaGetDefinedFunctionList p ps) st)"
  using assms
  by (simp add: get_defined_function_list_paginated_def Let_def
           split: option.splits delivered.splits payload.splits)

theorem only_page_zero_checked_locally_witness:
  "coerce (PInt (- 1)) = Inr (- 1) \<and> coerce (PInt 0) = Inr 0
   \<and> snd (get_defined_function_list_paginated sample_backend (PInt (- 1)) (PInt 0) empty_queue)
       = \<lparr>to_send_to_tool = [RevaGetDefinedFunctionList (- 1) 0]\<rparr>"
  using only_page_zero_checked_locally [of "PInt (- 1)" "- 1" "PInt 0" 0 sample_backend empty_queue]
  by (simp add: coerce_def put_def empty_queue_def)

text \<open>
  C6, as stated, fails: page \<open>-1\<close> and page size \<open>0\<close> both reach the backend, and the
  call returns what the backend answers.
\<close>
theorem page_constraints_counterexample:
  "get_defined_function_list_paginated sample_backend (PInt (- 1)) (PInt 20) empty_queue
     = (Returned [''main'', ''helper''], \<lparr>to_send_to_tool = [RevaGetDefinedFunctionList (- 1) 20]\<rparr>)
   \<and> get_defined_function_list_paginated sample_backend (PInt 1) (PInt 0) empty_queue
     = (Returned [''main'', ''helper''], \<lparr>to_send_to_tool = [RevaGetDefinedFunctionList 1 0]\<rparr>)"
  by (simp add: get_defined_function_list_paginated_def coerce_def sample_backend_def
      empty_queue_def put_def wait_def raise_if_error_def Let_def)

text \<open>
  C7, as the code has it. The rename of a variable and the reference lookup put their
  request on the queue for all strings, empty ones included; no check is made before.
\<close>
theorem strings_submitted_unchecked:
  "snd (rename_variable_in_function be new old f st)
     = put (RevaRenameVariable (RevaVariable old) new f) st
   \<and> snd (get_references be s st) = put (RevaGetReferences s) st"
  by (simp add: rename_variable_in_function_def get_references_def Let_def
           split: option.splits delivered.splits payload.splits)

text \<open>
  C7, as stated, fails: with every string empty, both requests reach the backend and
  both calls return.
\<close>
theorem empty_strings_counterexample:
  "rename_variable_in_function sample_backend [] [] [] empty_queue
     = (Returned ''Renamed  to  in '',
        \<lparr>to_send_to_tool = [RevaRenameVariable (RevaVariable []) [] []]\<rparr>)
   \<and> get_references sample_backend [] empty_queue
     = (Returned [(''references_to'', []), (''references_from'', [])],
        \<lparr>to_send_to_tool = [RevaGetReferences []]\<rparr>)"
  by (simp add: rename_variable_in_function_def get_references_def sample_backend_def
      empty_queue_def put_def wait_def raise_if_error_def Let_def)

text \<open>
  C8, as the code has it. For a lookup by a hexadecimal address greater than 0 that
  returns, the \<^verbatim>\<open>address\<close> entry of the result, read back by \<^verbatim>\<open>int(_, 16)\<close>, is the address
  carried by the backend's response; it is the input address exactly when the backend
  answered with the address asked for.
\<close>
theorem decompilation_address_is_backend_address:
  assumes "py_int 16 s = Some a" and "0 < a"
    and "wait be (put (RevaGetDecompilation (Some a) None) st) = Some (Message r)"
    and "fst (get_decompilation_for_function be (PStr s) st) = Returned m"
  shows "\<exists>f sig b d vs h.
           payload r = RevaGetDecompilationResponse f sig b d vs
           \<and> map_of m ''address'' = Some (Str h)
           \<and> py_int 16 h = Some b
           \<and> (py_int 16 h = Some a \<longleftrightarrow> b = a)"
proof -
  have n: "normalise (PStr s) = (\<lparr>address = Some a, name = None\<rparr>, None)"
    using assms(1,2) by (simp add: normalise_def)
  from assms(3,4) show ?thesis
    by (auto simp: get_decompilation_for_function_def n Let_def py_int_hex
             split: option.splits payload.splits)
qed

theorem decompilation_address_is_backend_address_witness:
  "py_int 16 ''1000'' = Some 4096 \<and> (0::int) < 4096
   \<and> wait sample_backend (put (RevaGetDecompilation (Some 4096) None) empty_queue)
       = Some (Message \<lparr>error_message = None,
           payload = RevaGetDecompilationResponse ''main'' ''int main(void)'' 4096 ''return 0;''
             [RevaVariable ''local_8'']\<rparr>)
   \<and> fst (get_decompilation_for_function sample_backend (PStr ''1000'') empty_queue)
       = Returned [(''function'', Str ''main''), (''function_signature'', Str ''int main(void)''),
           (''address'', Str ''0x1000''), (''decompilation'', Str ''return 0;''),
           (''variables'', Variables [RevaVariable ''local_8''])]
   \<and> py_int 16 ''0x1000'' = Some 4096"
proof -
  have p: "py_int 16 ''1000'' = Some 4096"
    by (simp add: py_int_def is_space_def digit_value_def)
  have q: "py_int 16 ''0x1000'' = Some 4096"
    by (simp add: py_int_def is_space_def digit_value_def)
  have h: "hex 4096 = ''0x1000''" by code_simp
  have w: "wait sample_backend (put (RevaGetDecompilation (Some 4096) None) empty_queue)
       = Some (Message \<lparr>error_message = None,
           payload = RevaGetDecompilationResponse ''main'' ''int main(void)'' 4096 ''return 0;''
             [RevaVariable ''local_8'']\<rparr>)"
    by (simp add: wait_def put_def sample_backend_def empty_queue_def)
  have n: "normalise (PStr ''1000'') = (\<lparr>address = Some 4096, name = None\<rparr>, None)"
    by (simp add: normalise_def p)
  have g: "fst (get_decompilation_for_function sample_backend (PStr ''1000'') empty_queue)
       = Returned [(''function'', Str ''main''), (''function_signature'', Str ''int main(void)''),
           (''address'', Str ''0x1000''), (''decompilation'', Str ''return 0;''),
           (''variables'', Variables [RevaVariable ''local_8''])]"
    by (simp add: get_decompilation_for_function_def n w h raise_if_error_def Let_def)
  show ?thesis
    using decompilation_address_is_backend_address [OF p _ w g] p q w g by simp
qed

text \<open>
  C8, as stated, fails when the backend answers with another address than the one asked
  for: the lookup of \<^verbatim>\<open>1000\<close> (0x1000) returns the address \<^verbatim>\<open>0x2000\<close>.
\<close>
theorem decompilation_address_counterexample:
  "py_int 16 ''1000'' = Some 4096
   \<and> fst (get_decompilation_for_function relocating_backend (PStr ''1000'') empty_queue)
       = Returned [(''function'', Str ''main''), (''function_signature'', Str ''int main(void)''),
           (''address'', Str ''0x2000''), (''decompilation'', Str ''return 0;''),
           (''variables'', Variables [])]
   \<and> py_int 16 ''0x2000'' = Some 8192"
proof -
  have p: "py_int 16 ''1000'' = Some 4096"
    by (simp add: py_int_def is_space_def digit_value_def)
  have q: "py_int 16 ''0x2000'' = Some 8192"
    by (simp add: py_int_def is_space_def digit_value_def)
  have h: "hex 8192 = ''0x2000''" by code_simp
  have n: "normalise (PStr ''1000'') = (\<lparr>address = Some 4096, name = None\<rparr>, None)"
    by (simp add: normalise_def p)
  show ?thesis
    by (simp add: p q get_decompilation_for_function_def n h relocating_backend_def wait_def
        raise_if_error_def Let_def)
qed

text \<open>
  C9. A response of the right kind, without error description and with both lists
  empty, makes the reference lookup return the dictionary with two empty lists.
\<close>
theorem get_references_no_references:
  assumes "wait be (put (RevaGetReferences s) st) = Some (Message r)"
    and "error_message r = None \<or> error_message r = Some []"
    and "payload r = RevaGetReferencesResponse [] []"
  shows "get_references be s st
           = (Returned [(''references_to'', []), (''references_from'', [])],
              put (RevaGetReferences s) st)"
  using assms by (auto simp: get_references_def raise_if_error_def Let_def)

theorem get_references_no_references_witness:
  "wait sample_backend (put (RevaGetReferences ''unused_symbol'') empty_queue)
     = Some (Message \<lparr>error_message = None, payload = RevaGetReferencesResponse [] []\<rparr>)
   \<and> get_references sample_backend ''unused_symbol'' empty_queue
     = (Returned [(''references_to'', []), (''references_from'', [])],
        \<lparr>to_send_to_tool = [RevaGetReferences ''unused_symbol'']\<rparr>)"
proof -
  have w: "wait sample_backend (put (RevaGetReferences ''unused_symbol'') empty_queue)
     = Some (Message \<lparr>error_message = None, payload = RevaGetReferencesResponse [] []\<rparr>)"
    by (simp add: wait_def put_def sample_backend_def empty_queue_def)
  show ?thesis
    using w get_references_no_references [OF w]
    by (simp add: put_def empty_queue_def)
qed

text \<open>
  C10. For every string, the normalisation leaves exactly one of \<open>address\<close> and \<open>name\<close>
  set: a string that \<^verbatim>\<open>int(_, 16)\<close> reads as a number greater than 0 sets the address and
  not the name, a string it rejects (the empty string is one) sets the name to the
  string, and whenever the normalisation raises nothing the request is put on the
  queue, so the branch for neither being set is not taken.
\<close>
theorem normalise_string_exactly_one:
  "(address (fst (normalise (PStr s))) = None) \<noteq> (name (fst (normalise (PStr s))) = None)
   \<and> (\<forall>a. py_int 16 s = Some a \<and> 0 < a \<longrightarrow>
         normalise (PStr s) = (\<lparr>address = Some a, name = None\<rparr>, None))
   \<and> (py_int 16 s = None \<longrightarrow>
         normalise (PStr s) = (\<lparr>address = None, name = Some s\<rparr>, None))
   \<and> normalise (PStr []) = (\<lparr>address = None, name = Some []\<rparr>, None)
   \<and> (snd (normalise (PStr s)) = None \<longrightarrow>
         snd (get_decompilation_for_function be (PStr s) st)
           = put (RevaGetDecompilation (address (fst (normalise (PStr s))))
                    (name (fst (normalise (PStr s))))) st)"
proof -
  have e: "py_int 16 [] = None" by (simp add: py_int_def)
  have sub: "snd (normalise (PStr s)) = None \<longrightarrow>
         snd (get_decompilation_for_function be (PStr s) st)
           = put (RevaGetDecompilation (address (fst (normalise (PStr s))))
                    (name (fst (normalise (PStr s))))) st"
    by (cases "py_int 16 s")
       (auto simp: normalise_def get_decompilation_for_function_def Let_def
             split: option.splits delivered.splits payload.splits if_splits)
  show ?thesis
    using sub by (auto simp: normalise_def e split: option.splits)
qed

theorem normalise_string_exactly_one_witness:
  "py_int 16 ''deadbeef'' = Some 3735928559 \<and> (0::int) < 3735928559
   \<and> normalise (PStr ''deadbeef'') = (\<lparr>address = Some 3735928559, name = None\<rparr>, None)
   \<and> py_int 16 ''main'' = None
   \<and> normalise (PStr ''main'') = (\<lparr>address = None, name = Some ''main''\<rparr>, None)
   \<and> snd (get_decompilation_for_function sample_backend (PStr ''deadbeef'') empty_queue)
       = \<lparr>to_send_to_tool = [RevaGetDecompilation (Some 3735928559) None]\<rparr>"
proof -
  have p: "py_int 16 ''deadbeef'' = Some 3735928559"
    by (simp add: py_int_def is_space_def digit_value_def)
  have q: "py_int 16 ''main'' = None"
    by (simp add: py_int_def is_space_def digit_value_def)
  show ?thesis
    using normalise_string_exactly_one [of "''deadbeef''" sample_backend empty_queue]
      normalise_string_exactly_one [of "''main''" sample_backend empty_queue] p q
    by (simp add: put_def empty_queue_def)
qed

end
